theory Spec2Isabelle
  imports Main "HOL-Library.Sublist" "HOL-Library.AList"
begin

section \<open>The relay of ver2.go\<close>

text \<open>
  The program is one Go file: an HTTP server with a unified action endpoint
  (\<open>handleOllamaAction\<close>), four functions that call the backend
  (\<open>callGenerateAPI\<close>, \<open>callChatAPI\<close>, \<open>callModelPullAPI\<close>,
  \<open>callModelDeleteAPI\<close>) and a listing endpoint (\<open>handleListModels\<close>).
  Strings are byte lists, as Go strings are. The functions of Go's standard library that
  the handlers call are either written out (\<open>http.Error\<close>, \<open>strings.TrimSpace\<close>,
  \<open>%d\<close> formatting, \<open>bufio.Scanner\<close> with its default line splitter and token
  limit) or, for the JSON codec, the request constructor and the network, taken as
  parameters collected in the record \<open>env\<close>: every theorem holds for whatever these
  functions return.
\<close>

subsection \<open>Constants\<close>

definition ollamaBaseURL :: string where
  "ollamaBaseURL = ''http://localhost:11434''"

definition ollamaGenerateAPI :: string where
  "ollamaGenerateAPI = ollamaBaseURL @ ''/api/generate''"

definition ollamaChatAPI :: string where
  "ollamaChatAPI = ollamaBaseURL @ ''/api/chat''"

definition ollamaTagsAPI :: string where
  "ollamaTagsAPI = ollamaBaseURL @ ''/api/tags''"

definition ollamaPullAPI :: string where
  "ollamaPullAPI = ollamaBaseURL @ ''/api/pull''"

definition ollamaDeleteAPI :: string where
  "ollamaDeleteAPI = ollamaBaseURL @ ''/api/delete''"

definition nl :: char where
  "nl = CHR 0x0A"

definition cr :: char where
  "cr = CHR 0x0D"

definition StatusOK :: int where
  "StatusOK = 200"

definition StatusBadRequest :: int where
  "StatusBadRequest = 400"

definition StatusMethodNotAllowed :: int where
  "StatusMethodNotAllowed = 405"

definition StatusInternalServerError :: int where
  "StatusInternalServerError = 500"

definition StatusBadGateway :: int where
  "StatusBadGateway = 502"

subsection \<open>The structs\<close>

text \<open>
  Field names are global in a theory, so the fields that several Go structs share
  (\<open>Model\<close>, \<open>Stream\<close>, \<open>Messages\<close>, \<open>Message\<close>, \<open>Body\<close>, \<open>Header\<close>) carry
  a prefix in all but one of them. The pointer field \<open>Message *Message\<close> of a chunk is
  an option: \<open>None\<close> is \<open>nil\<close>.
\<close>

record Message =
  Role :: string
  Content :: string

record OllamaGenerateRequestPayload =
  gen_Model :: string
  gen_Prompt :: string
  gen_Stream :: bool

record OllamaChatRequestPayload =
  chat_Model :: string
  chat_Messages :: "Message list"
  chat_Stream :: bool

record OllamaModelActionPayload =
  action_Model :: string

record OllamaResponseChunk =
  chunk_Model :: string
  CreatedAt :: string
  Response :: string
  chunk_Message :: "Message option"
  Done :: bool

record ClientRequest =
  ActionType :: string
  Model :: string
  Prompt :: string
  Messages :: "Message list"

record OllamaModel =
  Name :: string

record OllamaTagsResponse =
  Models :: "OllamaModel list"

subsection \<open>HTTP values\<close>

text \<open>
  A request (\<open>http.Request\<close>), the client (\<open>http.Client\<close>, of which the code sets the
  timeout only), and a backend response. The body of a response is the bytes that arrive
  before the reader ends, the error that ends it (\<open>None\<close> for \<open>io.EOF\<close>), and whether
  the reader reports that end together with its last bytes or by a read of its own: Go's
  readers may do either, and the scanner's token limit is sensitive to it on one input.
\<close>

record Request =
  Method :: string
  URL :: string
  req_Header :: "(string \<times> string) list"
  req_Body :: string

record Client =
  Timeout :: nat

record ReadCloser =
  bytes :: string
  readErr :: "string option"
  errWithData :: bool

record Response =
  StatusCode :: int
  Body :: ReadCloser

text \<open>
  The response writer records what the handler hands it. \<open>Header\<close> is the header
  map the handler edits, \<open>wroteHeader\<close> the status code of the first \<open>WriteHeader\<close>,
  \<open>sentHeader\<close> the headers at that moment, \<open>Sent\<close> the body writes that reached
  the client, in order, one element per write. \<open>Patience\<close> is the client: \<open>None\<close>
  when it stays connected, \<open>Some k\<close> when it closes its connection after \<open>k\<close> more
  writes, from when on a write returns an error and delivers nothing. \<open>isFlusher\<close>
  says whether the writer implements \<open>http.Flusher\<close>, as the writer of the server that
  \<open>main\<close> starts does.

  A status code is the three-digit code of an HTTP status line. What \<open>net/http\<close> does
  with particular codes when it puts the response on the wire (no body goes out with a
  1xx, 204 or 304 status, and \<open>WriteHeader\<close> panics on a number below 100 or above 999)
  is not part of the model.
\<close>

record ResponseWriter =
  Header :: "(string \<times> string) list"
  wroteHeader :: "int option"
  sentHeader :: "(string \<times> string) list"
  Sent :: "string list"
  Patience :: "nat option"
  isFlusher :: bool

text \<open>
  What a handler acts on: the writer, the process log (one entry per \<open>log.Printf\<close>,
  without the time stamp), the backend requests handed to \<open>client.Do\<close> so far, and the
  number of backend bodies closed.
\<close>

record session =
  rw :: ResponseWriter
  logged :: "string list"
  outbound :: "(Client \<times> Request) list"
  closedBodies :: nat

text \<open>
  The library functions that are parameters. A result \<open>Inl msg\<close> is a non-nil \<open>error\<close>
  whose \<open>Error()\<close> text is \<open>msg\<close>. The decoders are applied to the bytes received.
\<close>

record env =
  json_Decode_ClientRequest :: "string \<Rightarrow> string + ClientRequest"
  json_Marshal_Generate :: "OllamaGenerateRequestPayload \<Rightarrow> string + string"
  json_Marshal_Chat :: "OllamaChatRequestPayload \<Rightarrow> string + string"
  json_Marshal_Action :: "OllamaModelActionPayload \<Rightarrow> string + string"
  json_Unmarshal_Chunk :: "string \<Rightarrow> string + OllamaResponseChunk"
  json_Decode_Tags :: "string \<Rightarrow> string + OllamaTagsResponse"
  json_Encode_Tags :: "OllamaTagsResponse \<Rightarrow> string + string"
  http_NewRequest :: "string \<Rightarrow> string \<Rightarrow> string \<Rightarrow> string + Request"
  client_Do :: "Client \<Rightarrow> Request \<Rightarrow> string + Response"

subsection \<open>Writing the response\<close>

definition Header_Set :: "string \<Rightarrow> string \<Rightarrow> session \<Rightarrow> session" where
  "Header_Set k v s = s\<lparr>rw := (rw s)\<lparr>Header := AList.update k v (Header (rw s))\<rparr>\<rparr>"

definition Header_Del :: "string \<Rightarrow> session \<Rightarrow> session" where
  "Header_Del k s = s\<lparr>rw := (rw s)\<lparr>Header := AList.delete k (Header (rw s))\<rparr>\<rparr>"

text \<open>The first \<open>WriteHeader\<close> fixes the status and the headers; later ones are ignored.\<close>

definition WriteHeader :: "int \<Rightarrow> session \<Rightarrow> session" where
  "WriteHeader code s =
     (case wroteHeader (rw s) of
        Some c \<Rightarrow> s
      | None \<Rightarrow> s\<lparr>rw := (rw s)\<lparr>wroteHeader := Some code, sentHeader := Header (rw s)\<rparr>\<rparr>)"

text \<open>
  \<open>w.Write\<close> (and \<open>fmt.Fprintf\<close> on \<open>w\<close>): an implied \<open>WriteHeader(200)\<close>, then
  the bytes go out if the client is still there. The handlers drop the value \<open>Write\<close>
  returns, so the model returns the session only.
\<close>

definition Write :: "string \<Rightarrow> session \<Rightarrow> session" where
  "Write data s =
     (let s1 = WriteHeader StatusOK s in
      case Patience (rw s1) of
        None \<Rightarrow> s1\<lparr>rw := (rw s1)\<lparr>Sent := Sent (rw s1) @ [data]\<rparr>\<rparr>
      | Some 0 \<Rightarrow> s1
      | Some (Suc k) \<Rightarrow> s1\<lparr>rw := (rw s1)\<lparr>Sent := Sent (rw s1) @ [data], Patience := Some k\<rparr>\<rparr>)"

definition Flush :: "session \<Rightarrow> session" where
  "Flush s = WriteHeader StatusOK s"

definition http_Error :: "string \<Rightarrow> int \<Rightarrow> session \<Rightarrow> session" where
  "http_Error msg code s =
     Write (msg @ [nl])
       (WriteHeader code
         (Header_Set ''X-Content-Type-Options'' ''nosniff''
           (Header_Set ''Content-Type'' ''text/plain; charset=utf-8''
             (Header_Del ''Content-Length'' s))))"

definition log_Printf :: "string \<Rightarrow> session \<Rightarrow> session" where
  "log_Printf msg s = s\<lparr>logged := logged s @ [msg]\<rparr>"

definition newSession :: "bool \<Rightarrow> nat option \<Rightarrow> session" where
  "newSession fl p =
     \<lparr>rw = \<lparr>Header = [], wroteHeader = None, sentHeader = [], Sent = [],
             Patience = p, isFlusher = fl\<rparr>,
      logged = [], outbound = [], closedBodies = 0\<rparr>"

text \<open>
  When a handler returns without having written, the server sends the header with
  status 200 and an empty body.
\<close>

definition finishRequest :: "session \<Rightarrow> session" where
  "finishRequest s = WriteHeader StatusOK s"

subsection \<open>Formatting and trimming\<close>

fun digits :: "nat \<Rightarrow> string" where
  "digits n =
     (if n < 10 then [char_of (48 + n)]
      else digits (n div 10) @ [char_of (48 + n mod 10)])"

declare digits.simps [simp del]

text \<open>The verb \<open>%d\<close> on an \<open>int\<close>.\<close>

definition itoa :: "int \<Rightarrow> string" where
  "itoa i = (if i < 0 then ''-'' @ digits (nat (- i)) else digits (nat i))"

text \<open>
  \<open>strings.TrimSpace\<close> removes the leading and the trailing runes that
  \<open>unicode.IsSpace\<close> accepts. On bytes: the six ASCII space characters and the UTF-8
  encodings of U+0085, U+00A0, U+1680, U+2000 to U+200A, U+2028, U+2029, U+202F, U+205F
  and U+3000. A byte sequence that is not one of these encodings decodes to another rune
  or to the error rune, which is not a space.
\<close>

definition unicodeSpaces :: "string list" where
  "unicodeSpaces =
     [[CHR 0x09], [CHR 0x0A], [CHR 0x0B], [CHR 0x0C], [CHR 0x0D], [CHR 0x20],
      [CHR 0xC2, CHR 0x85], [CHR 0xC2, CHR 0xA0],
      [CHR 0xE1, CHR 0x9A, CHR 0x80],
      [CHR 0xE2, CHR 0x80, CHR 0x80], [CHR 0xE2, CHR 0x80, CHR 0x81],
      [CHR 0xE2, CHR 0x80, CHR 0x82], [CHR 0xE2, CHR 0x80, CHR 0x83],
      [CHR 0xE2, CHR 0x80, CHR 0x84], [CHR 0xE2, CHR 0x80, CHR 0x85],
      [CHR 0xE2, CHR 0x80, CHR 0x86], [CHR 0xE2, CHR 0x80, CHR 0x87],
      [CHR 0xE2, CHR 0x80, CHR 0x88], [CHR 0xE2, CHR 0x80, CHR 0x89],
      [CHR 0xE2, CHR 0x80, CHR 0x8A],
      [CHR 0xE2, CHR 0x80, CHR 0xA8], [CHR 0xE2, CHR 0x80, CHR 0xA9],
      [CHR 0xE2, CHR 0x80, CHR 0xAF],
      [CHR 0xE2, CHR 0x81, CHR 0x9F],
      [CHR 0xE3, CHR 0x80, CHR 0x80]]"

lemma unicodeSpaces_nonempty: "p \<in> set unicodeSpaces \<Longrightarrow> p \<noteq> []"
  by (auto simp: unicodeSpaces_def)

function TrimLeftSpace :: "string \<Rightarrow> string" where
  "TrimLeftSpace s =
     (case List.find (\<lambda>p. prefix p s) unicodeSpaces of
        None \<Rightarrow> s
      | Some p \<Rightarrow> TrimLeftSpace (drop (length p) s))"
  by pat_completeness auto
termination
proof (relation "measure length")
  show "wf (measure length)" by simp
next
  fix s :: string and p
  assume "List.find (\<lambda>p. prefix p s) unicodeSpaces = Some p"
  then have "p \<in> set unicodeSpaces" and "prefix p s"
    by (auto simp: find_Some_iff)
  then have "p \<noteq> []" and "length p \<le> length s"
    by (auto simp: unicodeSpaces_nonempty prefix_length_le)
  then show "(drop (length p) s, s) \<in> measure length"
    by (cases p) auto
qed

declare TrimLeftSpace.simps [simp del]

function TrimRightSpace :: "string \<Rightarrow> string" where
  "TrimRightSpace s =
     (case List.find (\<lambda>p. suffix p s) unicodeSpaces of
        None \<Rightarrow> s
      | Some p \<Rightarrow> TrimRightSpace (take (length s - length p) s))"
  by pat_completeness auto
termination
proof (relation "measure length")
  show "wf (measure length)" by simp
next
  fix s :: string and p
  assume "List.find (\<lambda>p. suffix p s) unicodeSpaces = Some p"
  then have "p \<in> set unicodeSpaces" and "suffix p s"
    by (auto simp: find_Some_iff)
  then have "p \<noteq> []" and "length p \<le> length s"
    by (auto simp: unicodeSpaces_nonempty suffix_length_le)
  then show "(take (length s - length p) s, s) \<in> measure length"
    by (cases p) auto
qed

declare TrimRightSpace.simps [simp del]

definition TrimSpace :: "string \<Rightarrow> string" where
  "TrimSpace s = TrimRightSpace (TrimLeftSpace s)"

subsection \<open>The line scanner\<close>

text \<open>
  \<open>bufio.NewScanner\<close> with its defaults: the split function is \<open>ScanLines\<close> and the
  buffer grows to \<open>MaxScanTokenSize\<close> bytes at most. The state is the part of the body
  not yet consumed, how that body ends, whether scanning is over, and the error that
  \<open>Err()\<close> returns (\<open>io.EOF\<close> is reported as no error).
\<close>

definition MaxScanTokenSize :: nat where
  "MaxScanTokenSize = 64 * 1024"

definition ErrTooLong :: string where
  "ErrTooLong = ''bufio.Scanner: token too long''"

record Scanner =
  src :: string
  srcErr :: "string option"
  srcErrWithData :: bool
  stopped :: bool
  scanErr :: "string option"

definition NewScanner :: "ReadCloser \<Rightarrow> Scanner" where
  "NewScanner b =
     \<lparr>src = bytes b, srcErr = readErr b, srcErrWithData = errWithData b,
      stopped = False, scanErr = None\<rparr>"

definition dropCR :: "string \<Rightarrow> string" where
  "dropCR data = (if data \<noteq> [] \<and> last data = cr then butlast data else data)"

text \<open>
  One call of \<open>Scan\<close>: the token, if there is one, and the scanner afterwards. With the
  first newline at index \<open>i\<close> of the unread bytes, the line is a token when the buffer
  can hold it up to its newline (\<open>i < MaxScanTokenSize\<close>); otherwise the buffer fills
  with no newline in it and scanning stops with \<open>ErrTooLong\<close>. Unread bytes without a
  newline are the final line: a token when they leave room in the buffer, or fill it
  exactly and the reader reported its end together with them; \<open>ErrTooLong\<close> otherwise.
  When nothing is left, scanning stops with the reader's error.
\<close>

definition Scan :: "Scanner \<Rightarrow> string option \<times> Scanner" where
  "Scan sc =
     (if stopped sc then (None, sc)
      else if src sc = [] then (None, sc\<lparr>stopped := True, scanErr := srcErr sc\<rparr>)
      else if nl \<in> set (src sc) then
        (let line = takeWhile (\<lambda>c. c \<noteq> nl) (src sc) in
         if length line < MaxScanTokenSize
         then (Some (dropCR line), sc\<lparr>src := drop (Suc (length line)) (src sc)\<rparr>)
         else (None, sc\<lparr>stopped := True, scanErr := Some ErrTooLong\<rparr>))
      else if length (src sc) < MaxScanTokenSize
              \<or> (length (src sc) = MaxScanTokenSize \<and> srcErrWithData sc)
        then (Some (dropCR (src sc)), sc\<lparr>src := []\<rparr>)
      else (None, sc\<lparr>stopped := True, scanErr := Some ErrTooLong\<rparr>))"

definition scanner_Err :: "Scanner \<Rightarrow> string option" where
  "scanner_Err sc = scanErr sc"

lemma Scan_decreases: "Scan sc = (Some line, sc') \<Longrightarrow> length (src sc') < length (src sc)"
  by (auto simp: Scan_def Let_def MaxScanTokenSize_def split: if_splits)

subsection \<open>The streaming loop\<close>

text \<open>
  The loops of \<open>callGenerateAPI\<close> and \<open>callChatAPI\<close> are the same text but for the
  test that decides whether a chunk is forwarded and the name of the API in the log
  message; the model has one loop with these two as parameters. It returns the scanner
  too, which the caller asks for its error.
\<close>

definition sseData :: "string \<Rightarrow> string" where
  "sseData line = ''data: '' @ line @ [nl, nl]"

definition sseDone :: string where
  "sseDone = ''data: [DONE]'' @ [nl, nl]"

function streamLoop ::
  "env \<Rightarrow> string \<Rightarrow> (OllamaResponseChunk \<Rightarrow> bool) \<Rightarrow> session \<Rightarrow> Scanner \<Rightarrow> session \<times> Scanner"
where
  "streamLoop e api forward s sc =
     (case Scan sc of
        (None, sc') \<Rightarrow> (s, sc')
      | (Some line, sc') \<Rightarrow>
          if line = [] then streamLoop e api forward s sc'
          else
            (case json_Unmarshal_Chunk e line of
               Inl err \<Rightarrow>
                 streamLoop e api forward
                   (log_Printf (''Error unmarshalling Ollama '' @ api @ '' response chunk: ''
                                @ err @ '', line: '' @ line) s) sc'
             | Inr chunk \<Rightarrow>
                 (let s1 = (if forward chunk then Flush (Write (sseData line) s) else s) in
                  if Done chunk then (Flush (Write sseDone s1), sc')
                  else streamLoop e api forward s1 sc')))"
  by pat_completeness auto
termination
  by (relation "measure (\<lambda>(e, api, forward, s, sc). length (src sc))")
     (auto dest: Scan_decreases [OF sym])

declare streamLoop.simps [simp del]

definition generateForward :: "OllamaResponseChunk \<Rightarrow> bool" where
  "generateForward chunk = (Response chunk \<noteq> [])"

definition chatForward :: "OllamaResponseChunk \<Rightarrow> bool" where
  "chatForward chunk =
     (case chunk_Message chunk of None \<Rightarrow> False | Some m \<Rightarrow> Content m \<noteq> [])"

definition io_ReadAll :: "ReadCloser \<Rightarrow> string \<times> string option" where
  "io_ReadAll b = (bytes b, readErr b)"

definition Body_Close :: "session \<Rightarrow> session" where
  "Body_Close s = s\<lparr>closedBodies := Suc (closedBodies s)\<rparr>"

definition setContentTypeJSON :: "Request \<Rightarrow> Request" where
  "setContentTypeJSON req =
     req\<lparr>req_Header := AList.update ''Content-Type'' ''application/json'' (req_Header req)\<rparr>"

definition doRequest :: "Client \<Rightarrow> Request \<Rightarrow> session \<Rightarrow> session" where
  "doRequest client req s = s\<lparr>outbound := outbound s @ [(client, req)]\<rparr>"

subsection \<open>The handlers\<close>

text \<open>
  Each function follows its Go text branch by branch. \<open>defer resp.Body.Close()\<close> runs
  when the function returns, on every path after \<open>client.Do\<close> succeeded.
\<close>

definition connectHint :: "string \<Rightarrow> string" where
  "connectHint err =
     ''Could not connect to Ollama. Please ensure Ollama is running on '' @ ollamaBaseURL
     @ ''. '' @ err"

definition streamResponse :: "env \<Rightarrow> string \<Rightarrow> (OllamaResponseChunk \<Rightarrow> bool) \<Rightarrow> Response \<Rightarrow> session \<Rightarrow> session" where
  "streamResponse e api forward resp s =
     (if StatusCode resp \<noteq> StatusOK then
        (let bodyBytes = fst (io_ReadAll (Body resp)) in
         http_Error
           (''Ollama API error: Status '' @ itoa (StatusCode resp) @ '', Message: ''
            @ TrimSpace bodyBytes)
           (StatusCode resp)
           (log_Printf
              (''Ollama '' @ api @ '' API returned non-200 status: '' @ itoa (StatusCode resp)
               @ '', body: '' @ bodyBytes) s))
      else
        (let s1 = Header_Set ''Connection'' ''keep-alive''
                    (Header_Set ''Cache-Control'' ''no-cache''
                      (Header_Set ''Content-Type'' ''text/event-stream'' s)) in
         if \<not> isFlusher (rw s1) then
           log_Printf (''Streaming not supported by this connection for '' @ api @ '' API.'') s1
         else
           (case streamLoop e api forward s1 (NewScanner (Body resp)) of
              (s2, scanner) \<Rightarrow>
                (case scanner_Err scanner of
                   None \<Rightarrow> s2
                 | Some err \<Rightarrow>
                     log_Printf (''Error reading Ollama '' @ api @ '' response stream: '' @ err)
                       s2))))"

definition callGenerateAPI :: "env \<Rightarrow> Request \<Rightarrow> ClientRequest \<Rightarrow> Client \<Rightarrow> session \<Rightarrow> session" where
  "callGenerateAPI e r clientReq client s =
     (let ollamaReq = \<lparr>gen_Model = Model clientReq, gen_Prompt = Prompt clientReq,
                        gen_Stream = True\<rparr> in
      case json_Marshal_Generate e ollamaReq of
        Inl err \<Rightarrow>
          http_Error (''Error marshalling Ollama generate request: '' @ err)
            StatusInternalServerError s
      | Inr payloadBytes \<Rightarrow>
          (case http_NewRequest e ''POST'' ollamaGenerateAPI payloadBytes of
             Inl err \<Rightarrow>
               http_Error (''Error creating generate request to Ollama: '' @ err)
                 StatusInternalServerError s
           | Inr req0 \<Rightarrow>
               (let req = setContentTypeJSON req0 in
                case client_Do e client req of
                  Inl err \<Rightarrow>
                    http_Error (connectHint err) StatusBadGateway
                      (log_Printf (''Error connecting to Ollama generate API: '' @ err)
                         (doRequest client req s))
                | Inr resp \<Rightarrow>
                    Body_Close
                      (streamResponse e ''generate'' generateForward resp
                         (doRequest client req s)))))"

definition callChatAPI :: "env \<Rightarrow> Request \<Rightarrow> ClientRequest \<Rightarrow> Client \<Rightarrow> session \<Rightarrow> session" where
  "callChatAPI e r clientReq client s =
     (let ollamaReq = \<lparr>chat_Model = Model clientReq, chat_Messages = Messages clientReq,
                        chat_Stream = True\<rparr> in
      case json_Marshal_Chat e ollamaReq of
        Inl err \<Rightarrow>
          http_Error (''Error marshalling Ollama chat request: '' @ err)
            StatusInternalServerError s
      | Inr payloadBytes \<Rightarrow>
          (case http_NewRequest e ''POST'' ollamaChatAPI payloadBytes of
             Inl err \<Rightarrow>
               http_Error (''Error creating chat request to Ollama: '' @ err)
                 StatusInternalServerError s
           | Inr req0 \<Rightarrow>
               (let req = setContentTypeJSON req0 in
                case client_Do e client req of
                  Inl err \<Rightarrow>
                    http_Error (connectHint err) StatusBadGateway
                      (log_Printf (''Error connecting to Ollama chat API: '' @ err)
                         (doRequest client req s))
                | Inr resp \<Rightarrow>
                    Body_Close
                      (streamResponse e ''chat'' chatForward resp
                         (doRequest client req s)))))"

text \<open>
  Pull and delete share the text after \<open>client.Do\<close>: read the whole body, an error
  response for a status other than 200, the body as plain text otherwise. \<open>verb\<close> is
  the word of the messages (\<open>pull\<close>, \<open>delete\<close>), \<open>doing\<close> its participle.
\<close>

definition relayBody :: "string \<Rightarrow> string \<Rightarrow> Response \<Rightarrow> session \<Rightarrow> session" where
  "relayBody verb doing resp s =
     (case io_ReadAll (Body resp) of
        (bodyBytes, Some err) \<Rightarrow>
          http_Error (''Error reading Ollama '' @ verb @ '' response: '' @ err)
            StatusInternalServerError s
      | (bodyBytes, None) \<Rightarrow>
          if StatusCode resp \<noteq> StatusOK then
            http_Error
              (''Ollama API error '' @ doing @ '' model: Status '' @ itoa (StatusCode resp)
               @ '', Message: '' @ TrimSpace bodyBytes)
              (StatusCode resp)
              (log_Printf
                 (''Ollama '' @ verb @ '' API returned non-200 status: ''
                  @ itoa (StatusCode resp) @ '', body: '' @ bodyBytes) s)
          else Write bodyBytes (Header_Set ''Content-Type'' ''text/plain'' s))"

definition callModelPullAPI :: "env \<Rightarrow> Request \<Rightarrow> ClientRequest \<Rightarrow> Client \<Rightarrow> session \<Rightarrow> session" where
  "callModelPullAPI e r clientReq client s =
     (let ollamaReq = \<lparr>action_Model = Model clientReq\<rparr> in
      case json_Marshal_Action e ollamaReq of
        Inl err \<Rightarrow>
          http_Error (''Error marshalling Ollama pull request: '' @ err)
            StatusInternalServerError s
      | Inr payloadBytes \<Rightarrow>
          (case http_NewRequest e ''POST'' ollamaPullAPI payloadBytes of
             Inl err \<Rightarrow>
               http_Error (''Error creating pull request to Ollama: '' @ err)
                 StatusInternalServerError s
           | Inr req0 \<Rightarrow>
               (let req = setContentTypeJSON req0 in
                case client_Do e client req of
                  Inl err \<Rightarrow>
                    http_Error (connectHint err) StatusBadGateway
                      (log_Printf (''Error connecting to Ollama pull API: '' @ err)
                         (doRequest client req s))
                | Inr resp \<Rightarrow>
                    Body_Close (relayBody ''pull'' ''pulling'' resp (doRequest client req s)))))"

definition callModelDeleteAPI :: "env \<Rightarrow> Request \<Rightarrow> ClientRequest \<Rightarrow> Client \<Rightarrow> session \<Rightarrow> session" where
  "callModelDeleteAPI e r clientReq client s =
     (let ollamaReq = \<lparr>action_Model = Model clientReq\<rparr> in
      case json_Marshal_Action e ollamaReq of
        Inl err \<Rightarrow>
          http_Error (''Error marshalling Ollama delete request: '' @ err)
            StatusInternalServerError s
      | Inr payloadBytes \<Rightarrow>
          (case http_NewRequest e ''DELETE'' ollamaDeleteAPI payloadBytes of
             Inl err \<Rightarrow>
               http_Error (''Error creating delete request to Ollama: '' @ err)
                 StatusInternalServerError s
           | Inr req0 \<Rightarrow>
               (let req = setContentTypeJSON req0 in
                case client_Do e client req of
                  Inl err \<Rightarrow>
                    http_Error (connectHint err) StatusBadGateway
                      (log_Printf (''Error connecting to Ollama delete API: '' @ err)
                         (doRequest client req s))
                | Inr resp \<Rightarrow>
                    Body_Close
                      (relayBody ''delete'' ''deleting'' resp (doRequest client req s)))))"

definition handleOllamaAction :: "env \<Rightarrow> Request \<Rightarrow> session \<Rightarrow> session" where
  "handleOllamaAction e r s =
     (if Method r \<noteq> ''POST'' then http_Error ''Method not allowed'' StatusMethodNotAllowed s
      else
        (case json_Decode_ClientRequest e (req_Body r) of
           Inl err \<Rightarrow> http_Error (''Invalid request payload: '' @ err) StatusBadRequest s
         | Inr clientReq \<Rightarrow>
             (let client = \<lparr>Timeout = 300\<rparr> in
              if ActionType clientReq = ''generate'' then callGenerateAPI e r clientReq client s
              else if ActionType clientReq = ''chat'' then callChatAPI e r clientReq client s
              else if ActionType clientReq = ''pull'' then callModelPullAPI e r clientReq client s
              else if ActionType clientReq = ''delete''
                then callModelDeleteAPI e r clientReq client s
              else http_Error (''Unknown action type: '' @ ActionType clientReq)
                     StatusBadRequest s)))"

text \<open>
  \<open>client.Get\<close> builds the request with \<open>NewRequest("GET", url, nil)\<close>, returns its
  error if there is one, and calls \<open>Do\<close>. \<open>Encode\<close> writes the encoding in one write,
  and nothing when it fails; the handler drops its result.
\<close>

definition handleListModels :: "env \<Rightarrow> Request \<Rightarrow> session \<Rightarrow> session" where
  "handleListModels e r s =
     (if Method r \<noteq> ''GET'' then http_Error ''Method not allowed'' StatusMethodNotAllowed s
      else
        (let client = \<lparr>Timeout = 10\<rparr>;
             unreachable = (\<lambda>err s'.
               http_Error
                 (''Could not connect to Ollama to list models. Please ensure Ollama is ''
                  @ ''running on '' @ ollamaTagsAPI @ ''.'')
                 StatusBadGateway
                 (log_Printf (''Error connecting to Ollama tags API: '' @ err) s')) in
         case http_NewRequest e ''GET'' ollamaTagsAPI [] of
           Inl err \<Rightarrow> unreachable err s
         | Inr req \<Rightarrow>
             (case client_Do e client req of
                Inl err \<Rightarrow> unreachable err (doRequest client req s)
              | Inr resp \<Rightarrow>
                  Body_Close
                    (let s1 = doRequest client req s in
                     if StatusCode resp \<noteq> StatusOK then
                       (let bodyBytes = fst (io_ReadAll (Body resp)) in
                        http_Error
                          (''Ollama API error fetching models: Status ''
                           @ itoa (StatusCode resp) @ '', Message: '' @ TrimSpace bodyBytes)
                          (StatusCode resp)
                          (log_Printf
                             (''Ollama tags API returned non-200 status: ''
                              @ itoa (StatusCode resp) @ '', body: '' @ bodyBytes) s1))
                     else
                       (case json_Decode_Tags e (bytes (Body resp)) of
                          Inl err \<Rightarrow>
                            http_Error ''Error parsing Ollama models response.''
                              StatusInternalServerError
                              (log_Printf
                                 (''Error unmarshalling Ollama tags response: '' @ err) s1)
                        | Inr tagsResponse \<Rightarrow>
                            (let s2 = Header_Set ''Content-Type'' ''application/json'' s1 in
                             case json_Encode_Tags e tagsResponse of
                               Inl err \<Rightarrow> s2
                             | Inr out \<Rightarrow> Write out s2))))))"

text \<open>
  The server around a handler: a fresh writer, the handler, and the header with status
  200 if the handler wrote nothing.
\<close>

definition serve :: "(Request \<Rightarrow> session \<Rightarrow> session) \<Rightarrow> bool \<Rightarrow> nat option \<Rightarrow> Request \<Rightarrow> session" where
  "serve handler fl p r = finishRequest (handler r (newSession fl p))"

subsection \<open>Streams of lines\<close>

text \<open>
  Notions for stating what the loop does. \<open>scanAll\<close> is the list of tokens that repeated
  calls of \<open>Scan\<close> deliver until one returns false. \<open>emitLines\<close> is the body of a
  backend that writes each line followed by a newline. A line \<open>completes\<close> the stream
  when it is not empty and decodes to a chunk with the completion flag set. \<open>events\<close>
  lists the writes that the loop's text prescribes for a list of tokens.
\<close>

function scanAll :: "Scanner \<Rightarrow> string list" where
  "scanAll sc = (case Scan sc of (None, sc') \<Rightarrow> [] | (Some line, sc') \<Rightarrow> line # scanAll sc')"
  by pat_completeness auto
termination
  by (relation "measure (\<lambda>sc. length (src sc))") (auto dest: Scan_decreases [OF sym])

declare scanAll.simps [simp del]

definition emitLines :: "string list \<Rightarrow> string" where
  "emitLines ls = concat (map (\<lambda>l. l @ [nl]) ls)"

definition completes :: "env \<Rightarrow> string \<Rightarrow> bool" where
  "completes e line =
     (line \<noteq> [] \<and> (case json_Unmarshal_Chunk e line of Inl err \<Rightarrow> False | Inr chunk \<Rightarrow> Done chunk))"

fun events :: "env \<Rightarrow> (OllamaResponseChunk \<Rightarrow> bool) \<Rightarrow> string list \<Rightarrow> string list" where
  "events e forward [] = []"
| "events e forward (line # ls) =
     (if line = [] then events e forward ls
      else
        (case json_Unmarshal_Chunk e line of
           Inl err \<Rightarrow> events e forward ls
         | Inr chunk \<Rightarrow>
             (if forward chunk then [sseData line] else [])
             @ (if Done chunk then [sseDone] else events e forward ls)))"

subsection \<open>Requests that reach the backend\<close>

text \<open>
  Two predicates for stating hypotheses. \<open>streamingRequest e clientReq req api forward\<close>:
  the decoded request is a generate or a chat request, \<open>req\<close> is the backend request
  that the relay builds for it (marshalling and \<open>http.NewRequest\<close> succeeded), \<open>api\<close>
  the name of the API in the log messages and \<open>forward\<close> the test that the relay applies
  to the chunks. \<open>modelRequest\<close> is the same for pull and delete. \<open>contentType\<close>
  reads the content type that went out with the status line.
\<close>

definition streamingRequest ::
  "env \<Rightarrow> ClientRequest \<Rightarrow> Request \<Rightarrow> string \<Rightarrow> (OllamaResponseChunk \<Rightarrow> bool) \<Rightarrow> bool" where
  "streamingRequest e clientReq req api forward =
     (if ActionType clientReq = ''generate'' then
        api = ''generate'' \<and> forward = generateForward
        \<and> (case json_Marshal_Generate e
                    \<lparr>gen_Model = Model clientReq, gen_Prompt = Prompt clientReq,
                     gen_Stream = True\<rparr> of
               Inl err \<Rightarrow> False
             | Inr payload \<Rightarrow> http_NewRequest e ''POST'' ollamaGenerateAPI payload = Inr req)
      else if ActionType clientReq = ''chat'' then
        api = ''chat'' \<and> forward = chatForward
        \<and> (case json_Marshal_Chat e
                    \<lparr>chat_Model = Model clientReq, chat_Messages = Messages clientReq,
                     chat_Stream = True\<rparr> of
               Inl err \<Rightarrow> False
             | Inr payload \<Rightarrow> http_NewRequest e ''POST'' ollamaChatAPI payload = Inr req)
      else False)"


definition contentType :: "session \<Rightarrow> string option" where
  "contentType s = map_of (sentHeader (rw s)) ''Content-Type''"

subsection \<open>Example inputs\<close>

text \<open>
  Concrete requests and library behaviour, for evaluating the handlers: a decoder given
  by a table of the texts it accepts, a request constructor that always succeeds, and a
  backend that gives one fixed answer.
\<close>

definition decodeTable :: "(string \<times> 'a) list \<Rightarrow> string \<Rightarrow> string + 'a" where
  "decodeTable tbl text =
     (case map_of tbl text of
        None \<Rightarrow> Inl ''invalid character''
      | Some v \<Rightarrow> Inr v)"

definition exampleChat :: string where
  \<open>exampleChat = ''{"actionType":"chat","model":"llama2","messages":[{"role":"user","content":"hi"}]}''\<close>

definition exampleGenerate :: string where
  \<open>exampleGenerate = ''{"actionType":"generate","model":"llama2","prompt":"hi"}''\<close>

definition examplePull :: string where
  \<open>examplePull = ''{"actionType":"pull","model":"llama2"}''\<close>

definition exampleDelete :: string where
  \<open>exampleDelete = ''{"actionType":"delete","model":"llama2"}''\<close>

definition exampleUnknown :: string where
  \<open>exampleUnknown = ''{"actionType":"list","model":"llama2"}''\<close>

definition exampleMalformed :: string where
  \<open>exampleMalformed = ''{"actionType":''\<close>

definition exampleRequests :: "(string \<times> ClientRequest) list" where
  "exampleRequests =
     [(exampleChat, \<lparr>ActionType = ''chat'', Model = ''llama2'', Prompt = [],
                      Messages = [\<lparr>Role = ''user'', Content = ''hi''\<rparr>]\<rparr>),
      (exampleGenerate, \<lparr>ActionType = ''generate'', Model = ''llama2'', Prompt = ''hi'',
                          Messages = []\<rparr>),
      (examplePull, \<lparr>ActionType = ''pull'', Model = ''llama2'', Prompt = [], Messages = []\<rparr>),
      (exampleDelete, \<lparr>ActionType = ''delete'', Model = ''llama2'', Prompt = [], Messages = []\<rparr>),
      (exampleUnknown, \<lparr>ActionType = ''list'', Model = ''llama2'', Prompt = [], Messages = []\<rparr>)]"

definition exampleTags :: string where
  \<open>exampleTags = ''{"models":[{"name":"llama2"}]}''\<close>

definition exampleEnv :: "(string \<times> OllamaResponseChunk) list \<Rightarrow> string + Response \<Rightarrow> env" where
  "exampleEnv chunks answer =
     \<lparr>json_Decode_ClientRequest = decodeTable exampleRequests,
      json_Marshal_Generate = (\<lambda>p. Inr ''generate payload''),
      json_Marshal_Chat = (\<lambda>p. Inr ''chat payload''),
      json_Marshal_Action = (\<lambda>p. Inr ''action payload''),
      json_Unmarshal_Chunk = decodeTable chunks,
      json_Decode_Tags = decodeTable [(exampleTags, \<lparr>Models = [\<lparr>Name = ''llama2''\<rparr>]\<rparr>),
                                      (exampleTags @ [nl], \<lparr>Models = [\<lparr>Name = ''llama2''\<rparr>]\<rparr>)],
      json_Encode_Tags = (\<lambda>t. if t = \<lparr>Models = [\<lparr>Name = ''llama2''\<rparr>]\<rparr>
                                 then Inr (exampleTags @ [nl]) else Inl ''unsupported value''),
      http_NewRequest = (\<lambda>m u b. Inr \<lparr>Method = m, URL = u, req_Header = [], req_Body = b\<rparr>),
      client_Do = (\<lambda>c q. answer)\<rparr>"

definition post :: "string \<Rightarrow> Request" where
  "post body = \<lparr>Method = ''POST'', URL = ''/api/ollama-action'', req_Header = [], req_Body = body\<rparr>"

definition exampleRefused :: string where
  "exampleRefused = ''dial tcp 127.0.0.1:11434: connect: connection refused''"

definition exampleErrorText :: string where
  "exampleErrorText = ''model not found'' @ [cr, nl]"

definition exampleNotFound :: Response where
  "exampleNotFound =
     \<lparr>StatusCode = 404,
      Body = \<lparr>bytes = exampleErrorText, readErr = None, errWithData = False\<rparr>\<rparr>"

definition exampleTagsAnswer :: Response where
  "exampleTagsAnswer =
     \<lparr>StatusCode = 200, Body = \<lparr>bytes = exampleTags, readErr = None, errWithData = False\<rparr>\<rparr>"

definition get :: Request where
  "get = \<lparr>Method = ''GET'', URL = ''/api/models'', req_Header = [], req_Body = []\<rparr>"

lemmas example_defs = post_def get_def exampleEnv_def decodeTable_def exampleRequests_def
  exampleChat_def exampleGenerate_def exampleMalformed_def examplePull_def exampleDelete_def
  exampleUnknown_def exampleTags_def exampleRefused_def exampleNotFound_def
  exampleTagsAnswer_def

subsection \<open>Notions for the streaming theorems\<close>

text \<open>
  \<open>chunkLine e forward line\<close>: the text is a line as the backend writes it (no newline
  in it, not empty, no carriage return at its end) and decodes to a chunk that passes
  the forwarding test of the API. \<open>emit\<close> is the pair \<open>Fprintf\<close>, \<open>Flush\<close> of the
  loop. \<open>eventStream\<close> holds of a session in which no status other than 200 has gone
  out and the headers that went out are those the handler set. \<open>streamStart\<close> is the
  session at the head of the loop. The remaining definitions are example inputs: the
  two chat lines of the scenario in the specification, a line longer than the
  scanner's limit, and backends that answer with them.
\<close>

definition chunkLine :: "env \<Rightarrow> (OllamaResponseChunk \<Rightarrow> bool) \<Rightarrow> string \<Rightarrow> bool" where
  "chunkLine e forward line =
     (nl \<notin> set line \<and> line \<noteq> [] \<and> last line \<noteq> cr
      \<and> (case json_Unmarshal_Chunk e line of Inl err \<Rightarrow> False | Inr chunk \<Rightarrow> forward chunk))"

definition emit :: "string \<Rightarrow> session \<Rightarrow> session" where
  "emit d s = Flush (Write d s)"

definition eventStream :: "session \<Rightarrow> bool" where
  "eventStream s =
     (wroteHeader (rw s) = None
      \<or> wroteHeader (rw s) = Some StatusOK \<and> sentHeader (rw s) = Header (rw s))"

definition streamStart :: "Request \<Rightarrow> nat option \<Rightarrow> session" where
  "streamStart req p =
     Header_Set ''Connection'' ''keep-alive''
       (Header_Set ''Cache-Control'' ''no-cache''
         (Header_Set ''Content-Type'' ''text/event-stream''
           (doRequest \<lparr>Timeout = 300\<rparr> (setContentTypeJSON req) (newSession True p))))"

definition exampleHel :: string where
  \<open>exampleHel = ''{"message":{"content":"Hel"},"done":false}''\<close>

definition exampleLo :: string where
  \<open>exampleLo = ''{"message":{"content":"lo"},"done":true}''\<close>

definition exampleChunks :: "(string \<times> OllamaResponseChunk) list" where
  "exampleChunks =
     [(exampleHel, \<lparr>chunk_Model = [], CreatedAt = [], Response = [],
                     chunk_Message = Some \<lparr>Role = [], Content = ''Hel''\<rparr>, Done = False\<rparr>),
      (exampleLo, \<lparr>chunk_Model = [], CreatedAt = [], Response = [],
                    chunk_Message = Some \<lparr>Role = [], Content = ''lo''\<rparr>, Done = True\<rparr>)]"

definition streamAnswer :: "string \<Rightarrow> Response" where
  "streamAnswer body =
     \<lparr>StatusCode = 200, Body = \<lparr>bytes = body, readErr = None, errWithData = False\<rparr>\<rparr>"

definition longLine :: string where
  \<open>longLine = ''{"response":"'' @ replicate 65536 (CHR ''a'') @ ''","done":true}''\<close>

definition longChunk :: OllamaResponseChunk where
  "longChunk =
     \<lparr>chunk_Model = [], CreatedAt = [], Response = replicate 65536 (CHR ''a''),
      chunk_Message = None, Done = True\<rparr>"

definition chatBody :: string where
  "chatBody = emitLines ([exampleHel] @ [exampleLo])"

definition longBody :: string where
  "longBody = emitLines [exampleHel] @ longLine @ nl # exampleLo @ [nl]"

definition chatEnv :: "string \<Rightarrow> env" where
  "chatEnv body = exampleEnv exampleChunks (Inr (streamAnswer body))"

definition longEnv :: env where
  "longEnv = exampleEnv [(longLine, longChunk)] (Inr (streamAnswer (emitLines [longLine])))"

section \<open>Properties\<close>

subsection \<open>The writer\<close>

lemmas writer_defs = http_Error_def Write_def WriteHeader_def Header_Set_def Header_Del_def
  log_Printf_def newSession_def finishRequest_def serve_def Flush_def doRequest_def Body_Close_def

lemma outbound_http_Error [simp]: "outbound (http_Error msg code s) = outbound s"
  by (simp add: writer_defs Let_def split: option.splits nat.splits)


lemma handle_streaming:
  assumes "Method r = ''POST''"
    and "json_Decode_ClientRequest e (req_Body r) = Inr clientReq"
    and "streamingRequest e clientReq req api forward"
  shows "handleOllamaAction e r s =
           (case client_Do e \<lparr>Timeout = 300\<rparr> (setContentTypeJSON req) of
              Inl err \<Rightarrow>
                http_Error (connectHint err) StatusBadGateway
                  (log_Printf (''Error connecting to Ollama '' @ api @ '' API: '' @ err)
                     (doRequest \<lparr>Timeout = 300\<rparr> (setContentTypeJSON req) s))
            | Inr resp \<Rightarrow>
                Body_Close
                  (streamResponse e api forward resp
                     (doRequest \<lparr>Timeout = 300\<rparr> (setContentTypeJSON req) s)))"
proof (cases "ActionType clientReq = ''generate''")
  case True
  show ?thesis
  proof (cases "json_Marshal_Generate e
      \<lparr>gen_Model = Model clientReq, gen_Prompt = Prompt clientReq, gen_Stream = True\<rparr>")
    case (Inl err)
    with True assms(3) show ?thesis by (simp add: streamingRequest_def)
  next
    case (Inr payload)
    with True assms show ?thesis
      by (simp add: handleOllamaAction_def streamingRequest_def callGenerateAPI_def Let_def
          split: sum.splits)
  qed
next
  case False
  show ?thesis
  proof (cases "ActionType clientReq = ''chat''")
    case True
    show ?thesis
    proof (cases "json_Marshal_Chat e
        \<lparr>chat_Model = Model clientReq, chat_Messages = Messages clientReq,
         chat_Stream = True\<rparr>")
      case (Inl err)
      with True assms(3) show ?thesis by (simp add: streamingRequest_def)
    next
      case (Inr payload)
      with True assms show ?thesis
        by (simp add: handleOllamaAction_def streamingRequest_def callChatAPI_def Let_def
            split: sum.splits)
    qed
  next
    case nc: False
    with False assms(3) show ?thesis
      by (simp add: streamingRequest_def)
  qed
qed




lemma fresh_session [simp]:
  "wroteHeader (rw (newSession fl p)) = None" "Sent (rw (newSession fl p)) = []"
  "Patience (rw (newSession fl p)) = p" "logged (newSession fl p) = []"
  "outbound (newSession fl p) = []" "isFlusher (rw (newSession fl p)) = fl"
  by (simp_all add: newSession_def)

lemma rw_doRequest [simp]: "rw (doRequest c q s) = rw s"
  by (simp add: doRequest_def)

lemma rw_log [simp]: "rw (log_Printf m s) = rw s"
  by (simp add: log_Printf_def)

lemma rw_Body_Close [simp]: "rw (Body_Close s) = rw s"
  by (simp add: Body_Close_def)

lemma finish_Body_Close: "finishRequest (Body_Close s) = Body_Close (finishRequest s)"
  by (simp add: finishRequest_def Body_Close_def WriteHeader_def split: option.splits)

lemma contentType_Body_Close [simp]: "contentType (Body_Close s) = contentType s"
  by (simp add: contentType_def)




subsection \<open>Validation\<close>



subsection \<open>Failures before the stream\<close>




subsection \<open>Pull and delete\<close>





subsection \<open>Listing the models\<close>

lemma list_models_Sent:
  assumes "Method r = ''GET''"
    and "http_NewRequest e ''GET'' ollamaTagsAPI [] = Inr req"
    and "client_Do e \<lparr>Timeout = 10\<rparr> req = Inr resp"
    and "StatusCode resp = StatusOK"
    and "json_Decode_Tags e (bytes (Body resp)) = Inr tagsResponse"
    and "json_Encode_Tags e tagsResponse = Inr out"
  shows "wroteHeader (rw (serve (handleListModels e) fl None r)) = Some StatusOK"
    and "contentType (serve (handleListModels e) fl None r) = Some ''application/json''"
    and "Sent (rw (serve (handleListModels e) fl None r)) = [out]"
  using assms
  by (simp_all add: serve_def handleListModels_def Let_def writer_defs contentType_def
      update_conv' split: option.splits)

text \<open>
  C8. When the tags endpoint answers a GET on the models endpoint with status 200 and a
  body that decodes to a list of models, the relay answers with status 200, content type
  JSON, and one write: the encoding of the decoded value, a structure with the single
  field \<open>models\<close>, a list of structures with the single field \<open>name\<close>. With a codec
  whose encoding of that value decodes back to it, as that of \<open>encoding/json\<close> does,
  decoding the relay's body gives the model names of the backend's body, in the same
  order.
\<close>

theorem list_models_response:
  assumes "Method r = ''GET''"
    and "http_NewRequest e ''GET'' ollamaTagsAPI [] = Inr req"
    and "client_Do e \<lparr>Timeout = 10\<rparr> req = Inr resp"
    and "StatusCode resp = StatusOK"
    and "json_Decode_Tags e (bytes (Body resp)) = Inr tagsResponse"
    and "json_Encode_Tags e tagsResponse = Inr out"
    and "json_Decode_Tags e out = Inr tagsResponse"
  shows "wroteHeader (rw (serve (handleListModels e) fl None r)) = Some StatusOK
       \<and> contentType (serve (handleListModels e) fl None r) = Some ''application/json''
       \<and> Sent (rw (serve (handleListModels e) fl None r)) = [out]
       \<and> (\<exists>relayed.
             json_Decode_Tags e (concat (Sent (rw (serve (handleListModels e) fl None r))))
               = Inr relayed
             \<and> map Name (Models relayed) = map Name (Models tagsResponse))"
  using list_models_Sent [OF assms(1-6), of fl] assms(7) by simp

theorem list_models_response_witness:
  "Sent (rw (serve (handleListModels (exampleEnv [] (Inr exampleTagsAnswer))) True None get))
     = [exampleTags @ [nl]]
   \<and> (\<exists>relayed.
         json_Decode_Tags (exampleEnv [] (Inr exampleTagsAnswer))
           (concat (Sent (rw (serve (handleListModels (exampleEnv [] (Inr exampleTagsAnswer)))
              True None get))))
           = Inr relayed
         \<and> map Name (Models relayed) = [''llama2''])"
  using list_models_response
     [where e = "exampleEnv [] (Inr exampleTagsAnswer)" and r = get
        and req = "\<lparr>Method = ''GET'', URL = ollamaTagsAPI, req_Header = [], req_Body = []\<rparr>"
        and resp = exampleTagsAnswer and tagsResponse = "\<lparr>Models = [\<lparr>Name = ''llama2''\<rparr>]\<rparr>"
        and out = "exampleTags @ [nl]" and fl = True]
  by (simp add: get_def exampleEnv_def decodeTable_def exampleTagsAnswer_def StatusOK_def
      exampleTags_def nl_def)

subsection \<open>The stream\<close>

lemma takeWhile_line: "nl \<notin> set l \<Longrightarrow> takeWhile (\<lambda>c. c \<noteq> nl) (l @ nl # B) = l"
  by (induction l) auto

lemma Scan_line:
  "\<not> stopped sc \<Longrightarrow> nl \<notin> set l \<Longrightarrow>
   Scan (sc\<lparr>src := l @ nl # B\<rparr>) =
     (if length l < MaxScanTokenSize then (Some (dropCR l), sc\<lparr>src := B\<rparr>)
      else (None, sc\<lparr>src := l @ nl # B, stopped := True, scanErr := Some ErrTooLong\<rparr>))"
  by (simp add: Scan_def takeWhile_line)

lemma Scan_long:
  assumes "\<not> stopped sc" "nl \<notin> set l" "MaxScanTokenSize < length l"
  shows "Scan (sc\<lparr>src := l @ B\<rparr>) =
           (None, sc\<lparr>src := l @ B, stopped := True, scanErr := Some ErrTooLong\<rparr>)"
proof -
  have tw: "takeWhile (\<lambda>c. c \<noteq> nl) (l @ B) = l @ takeWhile (\<lambda>c. c \<noteq> nl) B"
    using assms(2) by (induction l) auto
  have ne: "l @ B \<noteq> []" using assms(3) by auto
  show ?thesis
    using assms ne by (simp add: Scan_def tw Let_def del: append_is_Nil_conv) 
qed

lemma Scan_empty:
  "\<not> stopped sc \<Longrightarrow>
   Scan (sc\<lparr>src := []\<rparr>) = (None, sc\<lparr>src := [], stopped := True, scanErr := srcErr sc\<rparr>)"
  by (simp add: Scan_def)

lemma Scan_None_stopped: "Scan sc = (None, sc') \<Longrightarrow> stopped sc'"
  by (auto simp: Scan_def Let_def split: if_splits)

lemma Scan_Some_running: "Scan sc = (Some line, sc') \<Longrightarrow> \<not> stopped sc'"
  by (auto simp: Scan_def Let_def split: if_splits)

lemma scanAll_stopped: "stopped sc \<Longrightarrow> scanAll sc = []"
  by (simp add: scanAll.simps [of sc] Scan_def)

lemma dropCR_id: "l \<noteq> [] \<Longrightarrow> last l \<noteq> cr \<Longrightarrow> dropCR l = l"
  by (simp add: dropCR_def)

lemma emitLines_Cons: "emitLines (l # ls) @ B = l @ nl # emitLines ls @ B"
  by (simp add: emitLines_def)

lemma emitLines_Nil: "emitLines [] = []"
  by (simp add: emitLines_def)

lemma emit_fields:
  "logged (emit d s) = logged s" "outbound (emit d s) = outbound s"
  "closedBodies (emit d s) = closedBodies s" "Header (rw (emit d s)) = Header (rw s)"
  "isFlusher (rw (emit d s)) = isFlusher (rw s)"
  by (simp_all add: emit_def writer_defs Let_def split: option.splits nat.splits)

lemma emit_connected:
  "Patience (rw s) = None \<Longrightarrow> Patience (rw (emit d s)) = None"
  "Patience (rw s) = None \<Longrightarrow> Sent (rw (emit d s)) = Sent (rw s) @ [d]"
  by (simp_all add: emit_def writer_defs Let_def split: option.splits nat.splits)

lemma eventStream_emit: "eventStream s \<Longrightarrow> eventStream (emit d s)"
  by (auto simp: eventStream_def emit_def writer_defs Let_def split: option.splits nat.splits)

lemma eventStream_log: "eventStream (log_Printf m s) = eventStream s"
  by (simp add: eventStream_def log_Printf_def)

lemma eventStream_finish:
  "eventStream s \<Longrightarrow>
   wroteHeader (rw (finishRequest s)) = Some StatusOK
   \<and> sentHeader (rw (finishRequest s)) = Header (rw s)"
  by (auto simp: eventStream_def finishRequest_def WriteHeader_def)

lemma rw_emit_cong: "rw s = rw s' \<Longrightarrow> rw (emit d s) = rw (emit d s')"
  by (auto simp: emit_def writer_defs Let_def split: option.splits nat.splits)

lemma streamLoop_step:
  assumes "Scan sc = (Some line, sc')"
  shows "streamLoop e api forward s sc =
     (if line = [] then streamLoop e api forward s sc'
      else
        (case json_Unmarshal_Chunk e line of
           Inl err \<Rightarrow>
             streamLoop e api forward
               (log_Printf (''Error unmarshalling Ollama '' @ api @ '' response chunk: ''
                            @ err @ '', line: '' @ line) s) sc'
         | Inr chunk \<Rightarrow>
             (let s1 = (if forward chunk then emit (sseData line) s else s) in
              if Done chunk then (emit sseDone s1, sc')
              else streamLoop e api forward s1 sc')))"
  using assms
  by (simp add: streamLoop.simps [of e api forward s sc] emit_def Let_def split: sum.splits)

lemma streamLoop_stop:
  assumes "Scan sc = (None, sc')"
  shows "streamLoop e api forward s sc = (s, sc')"
  using assms by (simp add: streamLoop.simps [of e api forward s sc])

lemma streamLoop_forwarded:
  assumes "\<not> stopped sc"
    and "\<forall>l\<in>set ls. chunkLine e forward l \<and> length l < MaxScanTokenSize \<and> \<not> completes e l"
  shows "streamLoop e api forward s (sc\<lparr>src := emitLines ls @ B\<rparr>) =
           streamLoop e api forward (foldl (\<lambda>s l. emit (sseData l) s) s ls) (sc\<lparr>src := B\<rparr>)"
  using assms(2)
proof (induction ls arbitrary: s)
  case Nil
  show ?case by (simp add: emitLines_Nil)
next
  case (Cons l ls)
  from Cons.prems have l: "nl \<notin> set l" "l \<noteq> []" "last l \<noteq> cr" "length l < MaxScanTokenSize"
    by (simp_all add: chunkLine_def)
  from Cons.prems obtain chunk where c: "json_Unmarshal_Chunk e l = Inr chunk" "forward chunk"
    "\<not> Done chunk"
    by (auto simp: chunkLine_def completes_def split: sum.splits)
  have sc: "Scan (sc\<lparr>src := l @ nl # emitLines ls @ B\<rparr>) = (Some l, sc\<lparr>src := emitLines ls @ B\<rparr>)"
    using assms(1) l by (simp add: Scan_line dropCR_id)
  have "streamLoop e api forward s (sc\<lparr>src := emitLines (l # ls) @ B\<rparr>) =
          streamLoop e api forward (emit (sseData l) s) (sc\<lparr>src := emitLines ls @ B\<rparr>)"
    using l(2) c by (simp add: emitLines_Cons streamLoop_step [OF sc])
  also have "\<dots> = streamLoop e api forward
      (foldl (\<lambda>s l. emit (sseData l) s) (emit (sseData l) s) ls) (sc\<lparr>src := B\<rparr>)"
    using Cons.prems by (intro Cons.IH) simp
  finally show ?case by simp
qed

lemma streamLoop_final:
  assumes "\<not> stopped sc" "chunkLine e forward l" "length l < MaxScanTokenSize" "completes e l"
  shows "streamLoop e api forward s (sc\<lparr>src := l @ nl # B\<rparr>) =
           (emit sseDone (emit (sseData l) s), sc\<lparr>src := B\<rparr>)"
proof -
  from assms have l: "nl \<notin> set l" "l \<noteq> []" "last l \<noteq> cr"
    by (simp_all add: chunkLine_def)
  from assms obtain chunk where c: "json_Unmarshal_Chunk e l = Inr chunk" "forward chunk"
    "Done chunk"
    by (auto simp: chunkLine_def completes_def split: sum.splits)
  have sc: "Scan (sc\<lparr>src := l @ nl # B\<rparr>) = (Some l, sc\<lparr>src := B\<rparr>)"
    using assms(1,3) l by (simp add: Scan_line dropCR_id)
  show ?thesis using l(2) c by (simp add: streamLoop_step [OF sc])
qed

lemma streamLoop_too_long:
  assumes "\<not> stopped sc" "nl \<notin> set l" "MaxScanTokenSize < length l"
  shows "streamLoop e api forward s (sc\<lparr>src := l @ B\<rparr>) =
           (s, sc\<lparr>src := l @ B, stopped := True, scanErr := Some ErrTooLong\<rparr>)"
  by (simp add: streamLoop_stop [OF Scan_long [OF assms]])

lemma foldl_emit_fields:
  "logged (foldl (\<lambda>s l. emit (sseData l) s) s ls) = logged s"
  "outbound (foldl (\<lambda>s l. emit (sseData l) s) s ls) = outbound s"
  "closedBodies (foldl (\<lambda>s l. emit (sseData l) s) s ls) = closedBodies s"
  "Header (rw (foldl (\<lambda>s l. emit (sseData l) s) s ls)) = Header (rw s)"
  by (induction ls arbitrary: s) (simp_all add: emit_fields)

lemma foldl_emit_connected:
  "Patience (rw s) = None \<Longrightarrow>
   Patience (rw (foldl (\<lambda>s l. emit (sseData l) s) s ls)) = None
   \<and> Sent (rw (foldl (\<lambda>s l. emit (sseData l) s) s ls)) = Sent (rw s) @ map sseData ls"
  by (induction ls arbitrary: s) (simp_all add: emit_connected)

lemma foldl_emit_eventStream:
  "eventStream s \<Longrightarrow> eventStream (foldl (\<lambda>s l. emit (sseData l) s) s ls)"
  by (induction ls arbitrary: s) (simp_all add: eventStream_emit)

lemma streamStart_fields:
  "Sent (rw (streamStart req p)) = []" "Patience (rw (streamStart req p)) = p"
  "logged (streamStart req p) = []" "eventStream (streamStart req p)"
  "map_of (Header (rw (streamStart req p))) ''Content-Type'' = Some ''text/event-stream''"
  "isFlusher (rw (streamStart req p))"
  "outbound (streamStart req p) = [(\<lparr>Timeout = 300\<rparr>, setContentTypeJSON req)]"
  "closedBodies (streamStart req p) = 0"
  by (simp_all add: streamStart_def writer_defs eventStream_def update_conv')

lemma serve_streaming:
  assumes "Method r = ''POST''"
    and "json_Decode_ClientRequest e (req_Body r) = Inr clientReq"
    and "streamingRequest e clientReq req api forward"
    and "client_Do e \<lparr>Timeout = 300\<rparr> (setContentTypeJSON req) = Inr resp"
    and "StatusCode resp = StatusOK"
  shows "serve (handleOllamaAction e) True p r =
           finishRequest (Body_Close
             (case streamLoop e api forward (streamStart req p) (NewScanner (Body resp)) of
                (s2, scanner) \<Rightarrow>
                  (case scanner_Err scanner of
                     None \<Rightarrow> s2
                   | Some err \<Rightarrow>
                       log_Printf (''Error reading Ollama '' @ api @ '' response stream: '' @ err)
                         s2)))"
proof -
  have fl: "isFlusher (rw (streamStart req p))" by (rule streamStart_fields)
  show ?thesis
    using assms(4,5) fl
    by (simp add: serve_def handle_streaming [OF assms(1-3)] streamResponse_def Let_def
        streamStart_def [symmetric])
qed

lemma NewScanner_src:
  "NewScanner b = (NewScanner b)\<lparr>src := bytes b\<rparr>" "\<not> stopped (NewScanner b)"
  by (simp_all add: NewScanner_def)

lemma emitLines_snoc: "emitLines (ls @ [l]) = emitLines ls @ l @ [nl]"
  by (simp add: emitLines_def)

lemma scanner_Err_update [simp]:
  "scanner_Err (sc\<lparr>src := x\<rparr>) = scanErr sc"
  "scanner_Err (sc\<lparr>src := x, stopped := True, scanErr := y\<rparr>) = y"
  "scanErr (NewScanner b) = None"
  by (simp_all add: scanner_Err_def NewScanner_def)

lemma serve_complete:
  assumes "Method r = ''POST''"
    and "json_Decode_ClientRequest e (req_Body r) = Inr clientReq"
    and "streamingRequest e clientReq req api forward"
    and "client_Do e \<lparr>Timeout = 300\<rparr> (setContentTypeJSON req) = Inr resp"
    and "StatusCode resp = StatusOK"
    and "bytes (Body resp) = emitLines (init @ [final])"
    and "\<forall>l\<in>set init. chunkLine e forward l \<and> \<not> completes e l"
    and "chunkLine e forward final \<and> completes e final"
    and "\<forall>l\<in>set (init @ [final]). length l < MaxScanTokenSize"
  shows "serve (handleOllamaAction e) True p r =
           finishRequest (Body_Close
             (emit sseDone (emit (sseData final)
                (foldl (\<lambda>s l. emit (sseData l) s) (streamStart req p) init))))"
proof -
  let ?sc = "NewScanner (Body resp)"
  have src: "?sc = ?sc\<lparr>src := emitLines init @ final @ nl # []\<rparr>"
    using assms(6) by (simp add: NewScanner_def emitLines_snoc)
  have run: "\<not> stopped ?sc" by (simp add: NewScanner_def)
  have init: "\<forall>l\<in>set init. chunkLine e forward l \<and> length l < MaxScanTokenSize
      \<and> \<not> completes e l"
    using assms(7,9) by simp
  have "streamLoop e api forward (streamStart req p) ?sc =
          streamLoop e api forward (streamStart req p)
            (?sc\<lparr>src := emitLines init @ final @ nl # []\<rparr>)"
    using src by simp
  also have "\<dots> = streamLoop e api forward
      (foldl (\<lambda>s l. emit (sseData l) s) (streamStart req p) init) (?sc\<lparr>src := final @ nl # []\<rparr>)"
    by (rule streamLoop_forwarded [OF run init])
  also have "\<dots> = (emit sseDone (emit (sseData final)
      (foldl (\<lambda>s l. emit (sseData l) s) (streamStart req p) init)), ?sc\<lparr>src := []\<rparr>)"
    using assms(8,9) by (intro streamLoop_final [OF run]) simp_all
  finally show ?thesis
    by (simp add: serve_streaming [OF assms(1-5)])
qed

lemma serve_long_line:
  assumes "Method r = ''POST''"
    and "json_Decode_ClientRequest e (req_Body r) = Inr clientReq"
    and "streamingRequest e clientReq req api forward"
    and "client_Do e \<lparr>Timeout = 300\<rparr> (setContentTypeJSON req) = Inr resp"
    and "StatusCode resp = StatusOK"
    and "bytes (Body resp) = emitLines init @ long @ rest"
    and "\<forall>l\<in>set init. chunkLine e forward l \<and> length l < MaxScanTokenSize
           \<and> \<not> completes e l"
    and "nl \<notin> set long"
    and "MaxScanTokenSize < length long"
  shows "serve (handleOllamaAction e) True p r =
           finishRequest (Body_Close
             (log_Printf (''Error reading Ollama '' @ api @ '' response stream: '' @ ErrTooLong)
                (foldl (\<lambda>s l. emit (sseData l) s) (streamStart req p) init)))"
proof -
  let ?sc = "NewScanner (Body resp)"
  have src: "?sc = ?sc\<lparr>src := emitLines init @ long @ rest\<rparr>"
    using assms(6) by (simp add: NewScanner_def)
  have run: "\<not> stopped ?sc" by (simp add: NewScanner_def)
  have "streamLoop e api forward (streamStart req p) ?sc =
          streamLoop e api forward (streamStart req p)
            (?sc\<lparr>src := emitLines init @ long @ rest\<rparr>)"
    using src by simp
  also have "\<dots> = streamLoop e api forward
      (foldl (\<lambda>s l. emit (sseData l) s) (streamStart req p) init) (?sc\<lparr>src := long @ rest\<rparr>)"
    by (rule streamLoop_forwarded [OF run assms(7)])
  also have "\<dots> = (foldl (\<lambda>s l. emit (sseData l) s) (streamStart req p) init,
      ?sc\<lparr>src := long @ rest, stopped := True, scanErr := Some ErrTooLong\<rparr>)"
    by (rule streamLoop_too_long [OF run assms(8,9)])
  finally show ?thesis
    by (simp add: serve_streaming [OF assms(1-5)])
qed

lemma finished_stream:
  assumes "eventStream s" "map_of (Header (rw s)) ''Content-Type'' = Some ''text/event-stream''"
  shows "wroteHeader (rw (finishRequest (Body_Close s))) = Some StatusOK"
    and "contentType (finishRequest (Body_Close s)) = Some ''text/event-stream''"
    and "Sent (rw (finishRequest (Body_Close s))) = Sent (rw s)"
    and "logged (finishRequest (Body_Close s)) = logged s"
  using assms eventStream_finish [of s]
  by (simp_all add: finish_Body_Close contentType_def finishRequest_def WriteHeader_def
      Body_Close_def split: option.splits)

text \<open>
  C1, as the code has it. A generate or chat request reaches the backend, which answers
  with status 200 and a body of N lines, each followed by a newline, each shorter than
  the scanner's limit of 65536 bytes and each a chunk with non-empty output content for
  the API; the last has the completion flag set and the others do not. With a writer
  that can flush and a client that stays connected, the client receives N + 1 writes:
  for each line, in order, \<open>data: \<close>, the line and two newlines, and then
  \<open>data: [DONE]\<close> and two newlines. The status is 200 and the content type is the
  event stream.
\<close>

theorem stream_complete:
  assumes "Method r = ''POST''"
    and "json_Decode_ClientRequest e (req_Body r) = Inr clientReq"
    and "streamingRequest e clientReq req api forward"
    and "client_Do e \<lparr>Timeout = 300\<rparr> (setContentTypeJSON req) = Inr resp"
    and "StatusCode resp = StatusOK"
    and "bytes (Body resp) = emitLines (init @ [final])"
    and "\<forall>l\<in>set init. chunkLine e forward l \<and> \<not> completes e l"
    and "chunkLine e forward final \<and> completes e final"
    and "\<forall>l\<in>set (init @ [final]). length l < MaxScanTokenSize"
  shows "Sent (rw (serve (handleOllamaAction e) True None r))
           = map sseData (init @ [final]) @ [sseDone]
       \<and> wroteHeader (rw (serve (handleOllamaAction e) True None r)) = Some StatusOK
       \<and> contentType (serve (handleOllamaAction e) True None r) = Some ''text/event-stream''"
proof -
  let ?pre = "foldl (\<lambda>s l. emit (sseData l) s) (streamStart req None) init"
  let ?s = "emit sseDone (emit (sseData final) ?pre)"
  have es: "eventStream ?s"
    by (intro eventStream_emit foldl_emit_eventStream streamStart_fields)
  have ct: "map_of (Header (rw ?s)) ''Content-Type'' = Some ''text/event-stream''"
    by (simp add: emit_fields foldl_emit_fields streamStart_fields)
  have p0: "Patience (rw ?pre) = None" "Sent (rw ?pre) = map sseData init"
    using foldl_emit_connected [of "streamStart req None" init]
    by (simp_all add: streamStart_fields)
  note p1 = emit_connected [OF p0(1), of "sseData final"]
  have sent: "Sent (rw ?s) = map sseData (init @ [final]) @ [sseDone]"
    using emit_connected(2) [OF p1(1), of sseDone] p1(2) p0(2) by simp
  show ?thesis
    unfolding serve_complete [OF assms]
    using finished_stream [OF es ct] sent by simp
qed

text \<open>
  C10. The body holds, after lines that are forwarded chunks without the completion flag,
  more than 65536 bytes without a newline, and anything after them. The client receives
  the data events of the lines before and nothing else: no event for the long line or for
  a later one, no terminal event whatever follows. The response stays the event stream
  with status 200, and the only trace of the error is the log entry with the scanner's
  \<open>token too long\<close>.
\<close>

theorem long_line_stops_stream:
  assumes "Method r = ''POST''"
    and "json_Decode_ClientRequest e (req_Body r) = Inr clientReq"
    and "streamingRequest e clientReq req api forward"
    and "client_Do e \<lparr>Timeout = 300\<rparr> (setContentTypeJSON req) = Inr resp"
    and "StatusCode resp = StatusOK"
    and "bytes (Body resp) = emitLines init @ long @ rest"
    and "\<forall>l\<in>set init. chunkLine e forward l \<and> length l < MaxScanTokenSize
           \<and> \<not> completes e l"
    and "nl \<notin> set long"
    and "MaxScanTokenSize < length long"
  shows "Sent (rw (serve (handleOllamaAction e) True None r)) = map sseData init
       \<and> logged (serve (handleOllamaAction e) True None r)
           = [''Error reading Ollama '' @ api @ '' response stream: '' @ ErrTooLong]
       \<and> wroteHeader (rw (serve (handleOllamaAction e) True None r)) = Some StatusOK
       \<and> contentType (serve (handleOllamaAction e) True None r) = Some ''text/event-stream''"
proof -
  let ?pre = "foldl (\<lambda>s l. emit (sseData l) s) (streamStart req None) init"
  let ?s = "log_Printf (''Error reading Ollama '' @ api @ '' response stream: '' @ ErrTooLong) ?pre"
  have es: "eventStream ?s"
    by (simp add: eventStream_log foldl_emit_eventStream streamStart_fields)
  have ct: "map_of (Header (rw ?s)) ''Content-Type'' = Some ''text/event-stream''"
    by (simp add: foldl_emit_fields streamStart_fields)
  have p0: "Sent (rw ?pre) = map sseData init"
    using foldl_emit_connected [of "streamStart req None" init]
    by (simp add: streamStart_fields)
  have lg: "logged ?s = [''Error reading Ollama '' @ api @ '' response stream: '' @ ErrTooLong]"
    by (simp add: log_Printf_def foldl_emit_fields streamStart_fields)
  show ?thesis
    unfolding serve_long_line [OF assms]
    using finished_stream [OF es ct] p0 lg by simp
qed

lemma longLine_props:
  "nl \<notin> set longLine" "longLine \<noteq> []" "last longLine \<noteq> cr"
  "MaxScanTokenSize < length longLine"
  by (simp_all add: longLine_def nl_def cr_def MaxScanTokenSize_def)

lemma chatEnv_request:
  "Method (post exampleChat) = ''POST''"
  "json_Decode_ClientRequest (chatEnv body) (req_Body (post exampleChat))
     = Inr \<lparr>ActionType = ''chat'', Model = ''llama2'', Prompt = [],
            Messages = [\<lparr>Role = ''user'', Content = ''hi''\<rparr>]\<rparr>"
  "streamingRequest (chatEnv body)
     \<lparr>ActionType = ''chat'', Model = ''llama2'', Prompt = [],
      Messages = [\<lparr>Role = ''user'', Content = ''hi''\<rparr>]\<rparr>
     \<lparr>Method = ''POST'', URL = ollamaChatAPI, req_Header = [], req_Body = ''chat payload''\<rparr>
     ''chat'' chatForward"
  "client_Do (chatEnv body) \<lparr>Timeout = 300\<rparr>
     (setContentTypeJSON
        \<lparr>Method = ''POST'', URL = ollamaChatAPI, req_Header = [], req_Body = ''chat payload''\<rparr>)
     = Inr (streamAnswer body)"
  "StatusCode (streamAnswer body) = StatusOK"
  by (simp_all add: chatEnv_def example_defs streamingRequest_def streamAnswer_def StatusOK_def)

lemma chatEnv_chunks:
  "chunkLine (chatEnv body) chatForward exampleHel" "\<not> completes (chatEnv body) exampleHel"
  "chunkLine (chatEnv body) chatForward exampleLo" "completes (chatEnv body) exampleLo"
  "length exampleHel < MaxScanTokenSize" "length exampleLo < MaxScanTokenSize"
  by (simp_all add: chatEnv_def exampleEnv_def decodeTable_def exampleChunks_def chunkLine_def
      completes_def chatForward_def exampleHel_def exampleLo_def nl_def cr_def
      MaxScanTokenSize_def)

theorem stream_complete_witness:
  "Sent (rw (serve (handleOllamaAction (chatEnv chatBody)) True None (post exampleChat)))
     = [sseData exampleHel, sseData exampleLo, sseDone]"
proof -
  have b: "bytes (Body (streamAnswer chatBody)) = emitLines ([exampleHel] @ [exampleLo])"
    by (simp add: streamAnswer_def chatBody_def)
  have i: "\<forall>l\<in>set [exampleHel]. chunkLine (chatEnv chatBody) chatForward l
      \<and> \<not> completes (chatEnv chatBody) l"
    by (simp add: chatEnv_chunks)
  have f: "chunkLine (chatEnv chatBody) chatForward exampleLo
      \<and> completes (chatEnv chatBody) exampleLo"
    by (simp add: chatEnv_chunks)
  have n: "\<forall>l\<in>set ([exampleHel] @ [exampleLo]). length l < MaxScanTokenSize"
    by (simp add: chatEnv_chunks)
  from stream_complete [OF chatEnv_request b i f n] show ?thesis by simp
qed

theorem long_line_stops_stream_witness:
  "Sent (rw (serve (handleOllamaAction (chatEnv longBody)) True None (post exampleChat)))
     = [sseData exampleHel]
   \<and> logged (serve (handleOllamaAction (chatEnv longBody)) True None (post exampleChat))
     = [''Error reading Ollama chat response stream: bufio.Scanner: token too long'']"
proof -
  have b: "bytes (Body (streamAnswer longBody))
      = emitLines [exampleHel] @ longLine @ (nl # exampleLo @ [nl])"
    by (simp add: streamAnswer_def longBody_def)
  have i: "\<forall>l\<in>set [exampleHel]. chunkLine (chatEnv longBody) chatForward l
      \<and> length l < MaxScanTokenSize \<and> \<not> completes (chatEnv longBody) l"
    by (simp add: chatEnv_chunks)
  from long_line_stops_stream [OF chatEnv_request b i longLine_props(1,4)] show ?thesis
    by (simp add: ErrTooLong_def)
qed

lemma longEnv_request:
  "Method (post exampleGenerate) = ''POST''"
  "json_Decode_ClientRequest longEnv (req_Body (post exampleGenerate))
     = Inr \<lparr>ActionType = ''generate'', Model = ''llama2'', Prompt = ''hi'', Messages = []\<rparr>"
  "streamingRequest longEnv
     \<lparr>ActionType = ''generate'', Model = ''llama2'', Prompt = ''hi'', Messages = []\<rparr>
     \<lparr>Method = ''POST'', URL = ollamaGenerateAPI, req_Header = [],
      req_Body = ''generate payload''\<rparr>
     ''generate'' generateForward"
  "client_Do longEnv \<lparr>Timeout = 300\<rparr>
     (setContentTypeJSON
        \<lparr>Method = ''POST'', URL = ollamaGenerateAPI, req_Header = [],
         req_Body = ''generate payload''\<rparr>)
     = Inr (streamAnswer (emitLines [longLine]))"
  "StatusCode (streamAnswer (emitLines [longLine])) = StatusOK"
  by (simp_all add: longEnv_def example_defs streamingRequest_def streamAnswer_def StatusOK_def)

lemma longEnv_chunk:
  "chunkLine longEnv generateForward longLine" "completes longEnv longLine"
  using longLine_props
  by (simp_all add: longEnv_def exampleEnv_def decodeTable_def chunkLine_def completes_def
      generateForward_def longChunk_def)

text \<open>
  Without the bound on the length the claim fails: a single chunk with output content and
  the completion flag, on a line of more than 65536 bytes, gives the client no event.
\<close>

theorem stream_complete_fails_on_long_line:
  "StatusCode (streamAnswer (emitLines [longLine])) = StatusOK
   \<and> bytes (Body (streamAnswer (emitLines [longLine]))) = emitLines ([] @ [longLine])
   \<and> chunkLine longEnv generateForward longLine
   \<and> completes longEnv longLine
   \<and> Sent (rw (serve (handleOllamaAction longEnv) True None (post exampleGenerate))) = []
   \<and> Sent (rw (serve (handleOllamaAction longEnv) True None (post exampleGenerate)))
       \<noteq> map sseData ([] @ [longLine]) @ [sseDone]"
proof -
  have b: "bytes (Body (streamAnswer (emitLines [longLine]))) = emitLines [] @ longLine @ [nl]"
    by (simp add: streamAnswer_def emitLines_def)
  have i: "\<forall>l\<in>set []. chunkLine longEnv generateForward l \<and> length l < MaxScanTokenSize
      \<and> \<not> completes longEnv l"
    by simp
  have "serve (handleOllamaAction longEnv) True None (post exampleGenerate) =
          finishRequest (Body_Close
            (log_Printf (''Error reading Ollama '' @ ''generate'' @ '' response stream: ''
                         @ ErrTooLong)
               (foldl (\<lambda>s l. emit (sseData l) s)
                  (streamStart
                     \<lparr>Method = ''POST'', URL = ollamaGenerateAPI, req_Header = [],
                      req_Body = ''generate payload''\<rparr> None) [])))"
    by (rule serve_long_line [OF longEnv_request b i longLine_props(1,4)])
  then have sent: "Sent (rw (serve (handleOllamaAction longEnv) True None (post exampleGenerate)))
      = []"
    by (simp add: streamStart_fields finishRequest_def WriteHeader_def split: option.splits)
  show ?thesis
    using sent longEnv_chunk longEnv_request(5) by (simp add: streamAnswer_def)
qed

end
